theory Spec2Isabelle
  imports Main "HOL-Library.Word" "HOL-Library.AList"
begin

section \<open>Filterbank files: header decoding and the sample view\<close>

text \<open>
  A shallow embedding of \<^verbatim>\<open>lib/python/filterbank.py\<close> (Python 2). A file's content is a
  Python 2 \<^verbatim>\<open>str\<close>, that is a byte string: a \<^typ>\<open>string\<close> here, whose characters are
  bytes. The file system is a map from paths to contents. Python's integers are \<^typ>\<open>int\<close>;
  \<^verbatim>\<open>/\<close> and \<^verbatim>\<open>%\<close> on them round towards minus infinity, as \<open>div\<close> and \<open>mod\<close> do.
\<close>

subsection \<open>Values, errors, the file system\<close>

type_synonym filesystem = "string \<rightharpoonup> string"

text \<open>
  A header value: the record reader yields an integer, a double or a string, and
  \<^verbatim>\<open>None\<close> for the two sentinels. A double is kept as its 64-bit pattern: no claim
  proved here computes with it.
\<close>

datatype hdr_val = IntVal int | DoubleVal "64 word" | StrVal string | NoneVal

text \<open>
  The exceptions of the source are values. \<open>ValueError\<close>, \<open>KeyError\<close>,
  \<open>NameError\<close>, \<open>ZeroDivisionError\<close>, \<open>NotImplementedError\<close> and \<open>TypeError\<close> are raised
  by \<^verbatim>\<open>filterbank.py\<close> or by the Python and numpy operations it calls;
  \<open>IOError\<close>, \<open>MalformedHeader\<close> and \<open>TypeMismatch\<close> are the record codec's, named as
  the specification names them. \<open>NotImplementedError\<close> is the specification's
  \<open>UnsupportedSampleWidth\<close>.
\<close>

datatype error =
    ValueError
  | KeyError string
  | NameError string
  | ZeroDivisionError
  | NotImplementedError
  | TypeError
  | IOError
  | MalformedHeader
  | TypeMismatch

text \<open>
  The header is a Python \<^verbatim>\<open>dict\<close>: an association list with distinct keys, read with
  \<^const>\<open>map_of\<close>. \<^verbatim>\<open>header[k] = v\<close> replaces the value of a key that is present and adds
  the pair otherwise. The order of the list is the order of first insertion; a Python 2
  dict promises no order, and nothing below depends on it.
\<close>

type_synonym header = "(string \<times> hdr_val) list"

definition setitem :: "header \<Rightarrow> string \<Rightarrow> hdr_val \<Rightarrow> header" where
  "setitem h k v = AList.update k v h"

subsection \<open>The record codec\<close>

text \<open>
  \<^verbatim>\<open>sigproc.read_hdr_val(filfile)\<close> reads one tagged record at the position of the open file
  and advances it. The module \<^verbatim>\<open>sigproc\<close> is not among the sources. In
  \<^verbatim>\<open>read_header\<close> and in the file handle it is a parameter: a function from the
  file's content and a position to an error or the record read, as a name and
  a value, and the position after it.
\<close>

type_synonym hdr_record = "(string \<times> hdr_val) \<times> nat"

type_synonym reader = "string \<Rightarrow> nat \<Rightarrow> error + hdr_record"

datatype field_type = TStr | TInt | TDouble

type_synonym vocabulary = "string \<rightharpoonup> field_type"

definition le_nat :: "string \<Rightarrow> nat" where
  "le_nat bs = foldr (\<lambda>c n. of_char c + 256 * n) bs 0"

definition read_bytes :: "string \<Rightarrow> nat \<Rightarrow> nat \<Rightarrow> error + string \<times> nat" where
  "read_bytes file pos n =
     (if pos + n \<le> length file then Inr (take n (drop pos file), pos + n) else Inl IOError)"

definition read_string :: "string \<Rightarrow> nat \<Rightarrow> error + string \<times> nat" where
  "read_string file pos =
     (case read_bytes file pos 4 of
        Inl e \<Rightarrow> Inl e
      | Inr (bs, p) \<Rightarrow> read_bytes file p (le_nat bs))"

definition int32_of :: "string \<Rightarrow> int" where
  "int32_of bs = sint (word_of_nat (le_nat bs) :: 32 word)"

definition double_of :: "string \<Rightarrow> 64 word" where
  "double_of bs = word_of_nat (le_nat bs)"

text \<open>
  Modelled from the spec: \<^verbatim>\<open>sigproc.read_hdr_val\<close>, the decoder of one tagged record, is
  missing from the sources. The specification: read a length-prefixed string for the name;
  a sentinel name carries no value; any other name is looked up in a fixed table from names
  to types (string, 32-bit integer, double) and exactly that encoding is read; a name that
  the table does not know fails with \<open>MalformedHeader\<close>, a truncated stream with
  \<open>IOError\<close>. The specification fixes neither the width of the length prefix nor the byte
  order: four bytes and little-endian here. The table is the parameter \<open>tbl\<close>.
\<close>

definition read_hdr_val :: "vocabulary \<Rightarrow> reader" where
  "read_hdr_val tbl file pos =
     (case read_string file pos of
        Inl e \<Rightarrow> Inl e
      | Inr (name, p) \<Rightarrow>
          if name \<in> set [''HEADER_START'', ''HEADER_END''] then Inr ((name, NoneVal), p)
          else (case tbl name of
                  None \<Rightarrow> Inl MalformedHeader
                | Some TStr \<Rightarrow>
                    (case read_string file p of
                       Inl e \<Rightarrow> Inl e
                     | Inr (s, q) \<Rightarrow> Inr ((name, StrVal s), q))
                | Some TInt \<Rightarrow>
                    (case read_bytes file p 4 of
                       Inl e \<Rightarrow> Inl e
                     | Inr (bs, q) \<Rightarrow> Inr ((name, IntVal (int32_of bs)), q))
                | Some TDouble \<Rightarrow>
                    (case read_bytes file p 8 of
                       Inl e \<Rightarrow> Inl e
                     | Inr (bs, q) \<Rightarrow> Inr ((name, DoubleVal (double_of bs)), q))))"

text \<open>
  Modelled from the spec: \<^verbatim>\<open>sigproc.addto_hdr\<close>, the encoder of one tagged record, is
  missing from the sources. The specification: each record's shape on the wire mirrors the
  decoder's lookup of the type by name, and a value whose type is not the type the table
  declares for the name fails with \<open>TypeMismatch\<close>. A sentinel is its name alone. A name
  that the table does not know has no declared type to match: \<open>TypeMismatch\<close> as well.
\<close>

definition le_bytes4 :: "nat \<Rightarrow> string" where
  "le_bytes4 v = map (\<lambda>k. char_of (v div k)) [1, 2 ^ 8, 2 ^ 16, 2 ^ 24]"

definition le_bytes8 :: "nat \<Rightarrow> string" where
  "le_bytes8 v = le_bytes4 v @ le_bytes4 (v div 2 ^ 32)"

definition prefixed :: "string \<Rightarrow> string" where
  "prefixed s = le_bytes4 (length s) @ s"

fun encode_val :: "hdr_val \<Rightarrow> string" where
  "encode_val (StrVal s) = prefixed s"
| "encode_val (IntVal i) = le_bytes4 (nat (i mod 2 ^ 32))"
| "encode_val (DoubleVal d) = le_bytes8 (unat d)"
| "encode_val NoneVal = []"

fun has_type :: "hdr_val \<Rightarrow> field_type \<Rightarrow> bool" where
  "has_type (StrVal s) TStr = True"
| "has_type (IntVal i) TInt = True"
| "has_type (DoubleVal d) TDouble = True"
| "has_type v t = False"

definition addto_hdr :: "vocabulary \<Rightarrow> string \<Rightarrow> hdr_val \<Rightarrow> error + string" where
  "addto_hdr tbl name val =
     (if name \<in> set [''HEADER_START'', ''HEADER_END''] then Inr (prefixed name)
      else (case tbl name of
              None \<Rightarrow> Inl TypeMismatch
            | Some t \<Rightarrow>
                if has_type val t then Inr (prefixed name @ encode_val val)
                else Inl TypeMismatch))"

text \<open>
  The names and types that the specification gives for the table: the five fields the
  file handle depends on. The table of \<^verbatim>\<open>sigproc\<close> has more names; those are not given.
\<close>

definition header_params :: vocabulary where
  "header_params =
     map_of [(''fch1'', TDouble), (''foff'', TDouble), (''nchans'', TInt),
             (''nbits'', TInt), (''tsamp'', TDouble)]"

subsection \<open>\<^verbatim>\<open>read_header\<close>\<close>

text \<open>
  The loop of \<^verbatim>\<open>read_header\<close> (lines 83 to 90): while the last name read is not
  \<^verbatim>\<open>HEADER_END\<close>, read a record and store it unless its name is a sentinel. The state is
  the dict, the position of the file and the last name. A reader that never yields
  \<^verbatim>\<open>HEADER_END\<close> and never fails keeps the loop running: the result \<open>None\<close>.
\<close>

partial_function (option) read_header_loop ::
  "reader \<Rightarrow> string \<Rightarrow> header \<Rightarrow> nat \<Rightarrow> string \<Rightarrow> (error + header \<times> nat) option" where
  "read_header_loop rd file hdr pos paramname =
     (if paramname \<noteq> ''HEADER_END'' then
        (case rd file pos of
           Inl e \<Rightarrow> Some (Inl e)
         | Inr ((paramname', val), pos') \<Rightarrow>
             read_header_loop rd file
               (if paramname' \<notin> set [''HEADER_START'', ''HEADER_END'']
                then setitem hdr paramname' val else hdr)
               pos' paramname')
      else Some (Inr (hdr, pos)))"

text \<open>
  \<^verbatim>\<open>read_header(filename)\<close>: open the file (an \<open>IOError\<close> when there is none), start at
  position 0 with an empty dict and the name \<^verbatim>\<open>""\<close>, and return the dict and the position
  at which the loop stopped.
\<close>

definition read_header :: "reader \<Rightarrow> filesystem \<Rightarrow> string \<Rightarrow> (error + header \<times> nat) option" where
  "read_header rd fs filename =
     (case fs filename of
        None \<Rightarrow> Some (Inl IOError)
      | Some file \<Rightarrow> read_header_loop rd file [] 0 '''')"

subsection \<open>\<^verbatim>\<open>get_dtype\<close> and the memory map\<close>

text \<open>
  The dtype is a string in the source: \<^verbatim>\<open>'float32'\<close>, or \<^verbatim>\<open>'uint%d' % nbits\<close>, here
  \<open>UInt nbits\<close>. A sample of dtype \<^verbatim>\<open>uint8\<close>, \<^verbatim>\<open>uint16\<close> or \<^verbatim>\<open>float32\<close> takes 1, 2 or 4
  bytes.
\<close>

datatype dtype = Float32 | UInt int

definition get_dtype :: "int \<Rightarrow> error + dtype" where
  "get_dtype nbits =
     (if nbits \<notin> set [32, 16, 8] then Inl NotImplementedError
      else if nbits = 32 then Inr Float32
      else Inr (UInt nbits))"

fun itemsize :: "dtype \<Rightarrow> nat" where
  "itemsize Float32 = 4"
| "itemsize (UInt n) = nat (n div 8)"

text \<open>
  \<^verbatim>\<open>np.memmap(filename, dtype, mode, offset, shape=(nrows, ncols))\<close> is numpy's. It is a
  view of the file's bytes from \<open>offset\<close> on, row by row: row \<open>r\<close>, column \<open>c\<close> is the
  sample of \<open>itemsize\<close> bytes at \<open>offset + (r * ncols + c) * itemsize\<close>. A sample is kept as
  its bytes. numpy raises \<open>ValueError\<close> for a negative dimension, and for a region that
  ends beyond the end of a file opened read-only; the handle never asks for such a region
  (lemma \<open>init_geometry_region\<close>), so that a file opened for writing is not grown either.
\<close>

type_synonym ndarray = "string list list"

definition sample_at :: "string \<Rightarrow> nat \<Rightarrow> nat \<Rightarrow> nat \<Rightarrow> string" where
  "sample_at file offset w k = take w (drop (offset + k * w) file)"

definition memmap :: "string \<Rightarrow> dtype \<Rightarrow> nat \<Rightarrow> int \<times> int \<Rightarrow> error + ndarray" where
  "memmap file dt offset shape =
     (case shape of (nrows, ncols) \<Rightarrow>
        if nrows < 0 \<or> ncols < 0 then Inl ValueError
        else if int (length file) < int offset + nrows * ncols * int (itemsize dt)
        then Inl ValueError
        else Inr (map (\<lambda>r. map (\<lambda>c. sample_at file offset (itemsize dt) (r * nat ncols + c))
                                [0..<nat ncols])
                      [0..<nat nrows]))"

subsection \<open>The file handle\<close>

text \<open>
  The state of a \<^verbatim>\<open>FilterbankFile\<close> after \<^verbatim>\<open>__init__\<close>. \<^verbatim>\<open>frequencies\<close> and
  \<^verbatim>\<open>is_hifreq_first\<close> (lines 103 and 104) are computed in double precision by numpy and
  are not part of the record; the reads of the header that compute them are kept, with the
  errors they raise.
\<close>

record FilterbankFile =
  filename :: string
  read_only :: bool
  header :: header
  header_size :: nat
  data_size :: int
  bytes_per_spectrum :: int
  nspec :: int
  spectra_dtype :: dtype
  spectra :: ndarray

definition and_then :: "error + 'a \<Rightarrow> ('a \<Rightarrow> error + 'b) \<Rightarrow> error + 'b" where
  "and_then r f = (case r of Inl e \<Rightarrow> Inl e | Inr x \<Rightarrow> f x)"

text \<open>
  \<^verbatim>\<open>__getattr__\<close> (line 128): an attribute that the object does not have is looked up in
  the header, a \<open>KeyError\<close> when the header does not have it either. The five names read
  below are never attributes of the object.
\<close>

definition getattr :: "header \<Rightarrow> string \<Rightarrow> error + hdr_val" where
  "getattr hdr name =
     (case map_of hdr name of None \<Rightarrow> Inl (KeyError name) | Some v \<Rightarrow> Inr v)"

text \<open>
  The record reader types a value by its name: \<^verbatim>\<open>nchans\<close> and \<^verbatim>\<open>nbits\<close> are integers,
  \<^verbatim>\<open>fch1\<close>, \<^verbatim>\<open>foff\<close> and \<^verbatim>\<open>tsamp\<close> doubles. A value of another type is outside what
  the source computes with: \<open>TypeError\<close>.
\<close>

definition int_attr :: "header \<Rightarrow> string \<Rightarrow> error + int" where
  "int_attr hdr name =
     and_then (getattr hdr name)
       (\<lambda>v. case v of IntVal i \<Rightarrow> Inr i | _ \<Rightarrow> Inl TypeError)"

definition double_attr :: "header \<Rightarrow> string \<Rightarrow> error + 64 word" where
  "double_attr hdr name =
     and_then (getattr hdr name)
       (\<lambda>v. case v of DoubleVal d \<Rightarrow> Inr d | _ \<Rightarrow> Inl TypeError)"

text \<open>
  Lines 103 to 115 of \<^verbatim>\<open>__init__\<close>, once the header is read. The attributes are read in
  the order of the source: \<^verbatim>\<open>fch1\<close>, \<^verbatim>\<open>foff\<close>, \<^verbatim>\<open>nchans\<close> on line 103, \<^verbatim>\<open>nbits\<close> on
  line 106 (a name read again later is found again). Line 107 divides by
  \<^verbatim>\<open>bytes_per_spectrum\<close>: \<open>ZeroDivisionError\<close> when it is 0. The warning of line 110 is
  returned beside the handle. \<^verbatim>\<open>get_dtype\<close> is called on line 113, after all of these.
\<close>

definition init_geometry ::
  "string \<Rightarrow> bool \<Rightarrow> string \<Rightarrow> header \<Rightarrow> nat \<Rightarrow> error + FilterbankFile \<times> string list" where
  "init_geometry filfn ro file hdr hsize =
     and_then (double_attr hdr ''fch1'') (\<lambda>fch1.
     and_then (double_attr hdr ''foff'') (\<lambda>foff.
     and_then (int_attr hdr ''nchans'') (\<lambda>nchans.
     let dsize = int (length file) - int hsize in
     and_then (int_attr hdr ''nbits'') (\<lambda>nbits.
     let bps = nchans * nbits div 8 in
     if bps = 0 then Inl ZeroDivisionError
     else
       let n = dsize div bps;
           ws = (if dsize mod bps \<noteq> 0
                 then [''Not an integer number of spectra in file.''] else [])
       in
       and_then (get_dtype nbits) (\<lambda>dt.
       and_then (memmap file dt hsize (n, nchans)) (\<lambda>sp.
       Inr (\<lparr>filename = filfn, read_only = ro, header = hdr, header_size = hsize,
             data_size = dsize, bytes_per_spectrum = bps, nspec = n,
             spectra_dtype = dt, spectra = sp\<rparr>, ws)))))))"

text \<open>
  \<^verbatim>\<open>FilterbankFile(filfn, read_only)\<close>: a \<open>ValueError\<close> when the file does not exist, then
  \<^verbatim>\<open>read_header\<close>, then the geometry.
\<close>

definition FilterbankFile_init ::
  "reader \<Rightarrow> filesystem \<Rightarrow> string \<Rightarrow> bool \<Rightarrow> (error + FilterbankFile \<times> string list) option" where
  "FilterbankFile_init rd fs filfn ro =
     (case fs filfn of
        None \<Rightarrow> Some (Inl ValueError)
      | Some file \<Rightarrow>
          (case read_header rd fs filfn of
             None \<Rightarrow> None
           | Some (Inl e) \<Rightarrow> Some (Inl e)
           | Some (Inr (hdr, hsize)) \<Rightarrow> Some (init_geometry filfn ro file hdr hsize)))"

subsection \<open>Access to the spectra\<close>

text \<open>
  \<^verbatim>\<open>xs[start:stop]\<close> with integer bounds, as Python and numpy slice along the first axis:
  a negative bound counts from the end, and a bound is then clipped to \<open>0 .. len(xs)\<close>.
  No bound raises.
\<close>

definition slice_index :: "int \<Rightarrow> int \<Rightarrow> nat" where
  "slice_index n i = nat (if i < 0 then max (i + n) 0 else min i n)"

definition py_slice :: "'a list \<Rightarrow> int \<Rightarrow> int \<Rightarrow> 'a list" where
  "py_slice xs start stop =
     (let a = slice_index (int (length xs)) start;
          b = slice_index (int (length xs)) stop
      in take (b - a) (drop a xs))"

definition get_spectra :: "FilterbankFile \<Rightarrow> int \<Rightarrow> int \<Rightarrow> ndarray" where
  "get_spectra fb start stop = py_slice (spectra fb) start stop"

text \<open>
  \<^verbatim>\<open>get_timeslice\<close> computes \<^verbatim>\<open>int(np.round(start/self.tsamp))\<close> in double precision. The
  three operations are parameters: the division of two Python floats (it raises on a zero
  divisor), numpy's rounding to an integral double, and \<^verbatim>\<open>int\<close> (it raises on an infinity
  and on a NaN).
\<close>

record float_ops =
  fdiv :: "64 word \<Rightarrow> 64 word \<Rightarrow> error + 64 word"
  np_round :: "64 word \<Rightarrow> 64 word"
  to_int :: "64 word \<Rightarrow> error + int"

definition time_to_bins :: "float_ops \<Rightarrow> FilterbankFile \<Rightarrow> 64 word \<Rightarrow> error + int" where
  "time_to_bins ops fb t =
     and_then (double_attr (header fb) ''tsamp'') (\<lambda>tsamp.
     and_then (fdiv ops t tsamp) (\<lambda>q. to_int ops (np_round ops q)))"

definition get_timeslice ::
  "float_ops \<Rightarrow> FilterbankFile \<Rightarrow> 64 word \<Rightarrow> 64 word \<Rightarrow> error + ndarray" where
  "get_timeslice ops fb start stop =
     and_then (time_to_bins ops fb start) (\<lambda>startbins.
     and_then (time_to_bins ops fb stop) (\<lambda>stopbins.
     Inr (get_spectra fb startbins stopbins)))"

subsection \<open>\<^verbatim>\<open>create_filterbank_file\<close>\<close>

text \<open>
  \<^verbatim>\<open>create_filterbank_file(outfn, header, spectra)\<close> is a function of the module, not a
  method. It opens the file for writing, which empties it, and writes the start sentinel
  (lines 30 and 31). Line 32 then evaluates \<^verbatim>\<open>self.header.keys()\<close>: the name \<^verbatim>\<open>self\<close> is
  neither a parameter, nor a local, nor a global of the module, and Python raises
  \<open>NameError\<close>. Lines 33 to 40 (the records of the header, the end sentinel, the
  samples) are never reached, whatever the arguments. The result is the file system left
  behind and the error.
\<close>

definition create_filterbank_file ::
  "(string \<Rightarrow> hdr_val \<Rightarrow> error + string) \<Rightarrow> filesystem \<Rightarrow> string \<Rightarrow> header \<Rightarrow> ndarray option
     \<Rightarrow> filesystem \<times> (error + unit)" where
  "create_filterbank_file addto fs outfn hdr spectra_arg =
     (let fs1 = fs(outfn \<mapsto> []) in
      case addto ''HEADER_START'' NoneVal of
        Inl e \<Rightarrow> (fs1, Inl e)
      | Inr bs \<Rightarrow> (fs1(outfn \<mapsto> bs), Inl (NameError ''self'')))"

subsection \<open>Record traces and test files\<close>

text \<open>
  What a run of the loop reads: \<open>reads rd file pos rs\<close> says that the reader, started at
  \<open>pos\<close>, yields the records \<open>rs\<close> one after the other, each at the position the one
  before it ended at. \<open>store\<close> is line 89 and 90 for one record, \<open>fields\<close> are the pairs
  of the records that are not sentinels.
\<close>

definition rec_name :: "hdr_record \<Rightarrow> string" where
  "rec_name r = fst (fst r)"

definition rec_val :: "hdr_record \<Rightarrow> hdr_val" where
  "rec_val r = snd (fst r)"

fun reads :: "reader \<Rightarrow> string \<Rightarrow> nat \<Rightarrow> hdr_record list \<Rightarrow> bool" where
  "reads rd file pos [] = True"
| "reads rd file pos (r # rs) = (rd file pos = Inr r \<and> reads rd file (snd r) rs)"

definition store :: "header \<Rightarrow> hdr_record \<Rightarrow> header" where
  "store h r =
     (if rec_name r \<in> set [''HEADER_START'', ''HEADER_END''] then h
      else setitem h (rec_name r) (rec_val r))"

definition fields :: "hdr_record list \<Rightarrow> (string \<times> hdr_val) list" where
  "fields rs = filter (\<lambda>p. fst p \<notin> set [''HEADER_START'', ''HEADER_END'']) (map fst rs)"

text \<open>
  Files for the examples: the bytes of a header with the given fields between the two
  sentinels, in the encoding of \<^const>\<open>addto_hdr\<close>. The doubles are 1400.0, -1.0 and
  0.001 as bit patterns.
\<close>

definition encode_record :: "string \<times> hdr_val \<Rightarrow> string" where
  "encode_record p = prefixed (fst p) @ encode_val (snd p)"

definition encode_header :: "(string \<times> hdr_val) list \<Rightarrow> string" where
  "encode_header fs =
     prefixed ''HEADER_START'' @ concat (map encode_record fs) @ prefixed ''HEADER_END''"

definition scenario_fields :: "(string \<times> hdr_val) list" where
  "scenario_fields =
     [(''fch1'', DoubleVal 0x4095E00000000000), (''foff'', DoubleVal 0xBFF0000000000000),
      (''nchans'', IntVal 4), (''nbits'', IntVal 8),
      (''tsamp'', DoubleVal 0x3F50624DD2F1A9FC)]"

definition scenario_file :: string where
  "scenario_file = encode_header scenario_fields @ ''0123456789''"

text \<open>
  The file of the scenario and the handle that opening it gives: four channels of 8 bits,
  ten bytes of data after a header of 106 bytes, so two whole spectra and two bytes more.
\<close>

definition scenario_handle :: FilterbankFile where
  "scenario_handle =
     \<lparr>filename = ''obs.fil'', read_only = True, header = scenario_fields,
      header_size = 106, data_size = 10, bytes_per_spectrum = 4, nspec = 2,
      spectra_dtype = UInt 8,
      spectra = [[''0'', ''1'', ''2'', ''3''], [''4'', ''5'', ''6'', ''7'']]\<rparr>"

text \<open>A stream with no start sentinel: one field, then the end sentinel.\<close>

definition headless_file :: string where
  "headless_file = encode_record (''nchans'', IntVal 4) @ prefixed ''HEADER_END''"

text \<open>A file of 1-bit samples in four channels, with eight bytes of data.\<close>

definition onebit_file :: string where
  "onebit_file =
     encode_header
       [(''fch1'', DoubleVal 0x4095E00000000000), (''foff'', DoubleVal 0xBFF0000000000000),
        (''nchans'', IntVal 4), (''nbits'', IntVal 1)]
     @ ''01234567''"

text \<open>A header in which \<^verbatim>\<open>nchans\<close> comes twice.\<close>

definition repeated_file :: string where
  "repeated_file =
     encode_header [(''nchans'', IntVal 4), (''nbits'', IntVal 8), (''nchans'', IntVal 16)]"

text \<open>
  The three operations on doubles for the example of \<^verbatim>\<open>get_timeslice\<close>, given on the
  values the example needs only: 0.0 / 0.001 = 0.0 and 0.002 / 0.001 = 2.0, both integral
  already, and their integers 0 and 2.
\<close>

definition table_ops :: float_ops where
  "table_ops =
     \<lparr>fdiv = (\<lambda>x y.
               if y = 0x3F50624DD2F1A9FC \<and> x = 0 then Inr 0
               else if y = 0x3F50624DD2F1A9FC \<and> x = 0x3F60624DD2F1A9FC
               then Inr 0x4000000000000000
               else Inl ValueError),
      np_round = (\<lambda>x. x),
      to_int = (\<lambda>x. if x = 0 then Inr 0
                     else if x = 0x4000000000000000 then Inr 2
                     else Inl ValueError)\<rparr>"

section \<open>Properties\<close>

subsection \<open>The loop of \<^verbatim>\<open>read_header\<close>\<close>

lemma loop_end:
  assumes "paramname \<noteq> ''HEADER_END''" "rd content pos = Inr ((''HEADER_END'', v), q)"
  shows "read_header_loop rd content h pos paramname = Some (Inr (h, q))"
  using assms
  by (subst read_header_loop.simps, simp, subst read_header_loop.simps, simp)

lemma loop_step:
  assumes "paramname \<noteq> ''HEADER_END''" "rd content pos = Inr r"
  shows "read_header_loop rd content h pos paramname =
         read_header_loop rd content (store h r) (snd r) (rec_name r)"
  using assms
  by (subst read_header_loop.simps) (cases r, auto simp: store_def rec_name_def rec_val_def)

lemma loop_fail:
  assumes "paramname \<noteq> ''HEADER_END''" "rd content pos = Inl e"
  shows "read_header_loop rd content h pos paramname = Some (Inl e)"
  using assms by (subst read_header_loop.simps) simp

lemma loop_reads:
  "paramname \<noteq> ''HEADER_END'' \<Longrightarrow> reads rd content pos (rs @ [((''HEADER_END'', v), q)]) \<Longrightarrow>
   ''HEADER_END'' \<notin> set (map rec_name rs) \<Longrightarrow>
   read_header_loop rd content h pos paramname = Some (Inr (foldl store h rs, q))"
proof (induction rs arbitrary: h pos paramname)
  case Nil
  then show ?case by (simp add: loop_end)
next
  case (Cons r rs)
  from Cons.prems have r: "rd content pos = Inr r"
    and rest: "reads rd content (snd r) (rs @ [((''HEADER_END'', v), q)])"
    and ne: "rec_name r \<noteq> ''HEADER_END''"
    and nes: "''HEADER_END'' \<notin> set (map rec_name rs)"
    by auto
  have "read_header_loop rd content h pos paramname =
        read_header_loop rd content (store h r) (snd r) (rec_name r)"
    using Cons.prems(1) r by (rule loop_step)
  also have "\<dots> = Some (Inr (foldl store (store h r) rs, q))"
    using ne rest nes by (rule Cons.IH)
  finally show ?case by simp
qed

lemma read_header_reads:
  assumes "fs path = Some content"
    and "reads rd content 0 (rs @ [((''HEADER_END'', v), q)])"
    and "''HEADER_END'' \<notin> set (map rec_name rs)"
  shows "read_header rd fs path = Some (Inr (foldl store [] rs, q))"
  using assms by (simp add: read_header_def loop_reads)

lemma map_of_store:
  "map_of (foldl store h rs) = map_of h ++ map_of (rev (fields rs))"
proof (induction rs arbitrary: h)
  case Nil
  show ?case by (simp add: fields_def)
next
  case (Cons r rs)
  show ?case
  proof (cases "rec_name r \<in> set [''HEADER_START'', ''HEADER_END'']")
    case True
    then have "store h r = h" and "fields (r # rs) = fields rs"
      by (simp_all add: store_def fields_def rec_name_def)
    then show ?thesis using Cons.IH [of h] by simp
  next
    case False
    then have f: "fields (r # rs) = fst r # fields rs"
      by (simp add: fields_def rec_name_def)
    have s: "map_of (store h r) = (map_of h)(rec_name r \<mapsto> rec_val r)"
      using False by (simp add: store_def setitem_def update_conv')
    have "map_of (foldl store h (r # rs)) = map_of (store h r) ++ map_of (rev (fields rs))"
      using Cons.IH [of "store h r"] by simp
    also have "\<dots> = map_of h ++ map_of (rev (fields (r # rs)))"
      unfolding f s
      by (cases r) (auto simp: rec_name_def rec_val_def map_add_def fun_eq_iff split: option.splits)
    finally show ?thesis .
  qed
qed

lemma distinct_store:
  "distinct (map fst h) \<Longrightarrow> distinct (map fst (foldl store h rs))"
  by (induction rs arbitrary: h) (auto simp: store_def setitem_def distinct_update)

lemma map_of_rev_last:
  "map_of (rev xs) k =
     (case filter (\<lambda>p. fst p = k) xs of [] \<Rightarrow> None | y # ys \<Rightarrow> Some (snd (last (y # ys))))"
  by (induction xs rule: rev_induct) (auto split: list.splits)

lemma count_distinct:
  "distinct (map fst h) \<Longrightarrow> map_of h k = Some v \<Longrightarrow> length (filter (\<lambda>p. fst p = k) h) = 1"
proof (induction h)
  case Nil
  then show ?case by simp
next
  case (Cons p h)
  show ?case
  proof (cases "fst p = k")
    case True
    with Cons.prems have "k \<notin> fst ` set h" by simp
    then have "\<forall>x\<in>set h. fst x \<noteq> k" by force
    then have "filter (\<lambda>p. fst p = k) h = []" by (simp add: filter_empty_conv)
    with True show ?thesis by simp
  next
    case False
    with Cons.prems have "map_of h k = Some v" by (cases p) auto
    with Cons.IH Cons.prems False show ?thesis by simp
  qed
qed

lemmas codec_defs =
  prefixed_def le_bytes4_def le_bytes8_def read_hdr_val_def read_string_def read_bytes_def
  le_nat_def header_params_def int32_of_def double_of_def encode_header_def encode_record_def

text \<open>
  C2. For every valid header stream, \<^verbatim>\<open>read_header\<close> reads tagged records one at a time
  until a record named \<^verbatim>\<open>HEADER_END\<close> is consumed, stores every pair of a name and a value
  in the returned mapping except those of the two sentinel names, and returns as the header
  size the position of the stream right after the end sentinel. Stated for every record
  reader: when the reader yields the records \<open>rs\<close>, none of them named \<^verbatim>\<open>HEADER_END\<close>, and
  then a record named \<^verbatim>\<open>HEADER_END\<close> that ends at position \<open>q\<close>, the function returns,
  the position returned is \<open>q\<close>, the mapping has a name once at most, and looking a name up
  gives the value of the last record of \<open>rs\<close> with that name that is not a sentinel and
  nothing for any other name.
\<close>

theorem read_header_until_end:
  assumes "fs path = Some content"
    and "reads rd content 0 (rs @ [((''HEADER_END'', v), q)])"
    and "''HEADER_END'' \<notin> set (map rec_name rs)"
  shows "\<exists>hdr. read_header rd fs path = Some (Inr (hdr, q))
           \<and> hdr = foldl store [] rs
           \<and> map_of hdr = map_of (rev (fields rs))
           \<and> distinct (map fst hdr)"
  using assms read_header_reads [where fs = fs and path = path and content = content]
    map_of_store [of "[]" rs] distinct_store [of "[]" rs]
  by simp

theorem read_header_until_end_witness:
  "reads (read_hdr_val header_params) scenario_file 0
     ([((''HEADER_START'', NoneVal), 16), ((''fch1'', DoubleVal 0x4095E00000000000), 32),
       ((''foff'', DoubleVal 0xBFF0000000000000), 48), ((''nchans'', IntVal 4), 62),
       ((''nbits'', IntVal 8), 75), ((''tsamp'', DoubleVal 0x3F50624DD2F1A9FC), 92)]
      @ [((''HEADER_END'', NoneVal), 106)])
   \<and> read_header (read_hdr_val header_params) [''obs.fil'' \<mapsto> scenario_file] ''obs.fil''
       = Some (Inr (scenario_fields, 106))"
proof -
  let ?rs = "[((''HEADER_START'', NoneVal), 16), ((''fch1'', DoubleVal 0x4095E00000000000), 32),
       ((''foff'', DoubleVal 0xBFF0000000000000), 48), ((''nchans'', IntVal 4), 62),
       ((''nbits'', IntVal 8), 75), ((''tsamp'', DoubleVal 0x3F50624DD2F1A9FC), 92)]"
  have f: "[''obs.fil'' \<mapsto> scenario_file] ''obs.fil'' = Some scenario_file" by simp
  have r: "reads (read_hdr_val header_params) scenario_file 0
             (?rs @ [((''HEADER_END'', NoneVal), 106)])"
    by (simp add: codec_defs scenario_file_def scenario_fields_def)
  have n: "''HEADER_END'' \<notin> set (map rec_name ?rs)"
    by (simp add: rec_name_def)
  have s: "foldl store [] ?rs = scenario_fields"
    by (simp add: store_def rec_name_def rec_val_def setitem_def scenario_fields_def)
  from read_header_until_end
         [where fs = "[''obs.fil'' \<mapsto> scenario_file]" and path = "''obs.fil''"
            and content = scenario_file, OF f r n] s r
  show ?thesis by auto
qed

subsection \<open>Opening a file\<close>

lemma int_attr_Inr: "int_attr hdr k = Inr i \<longleftrightarrow> map_of hdr k = Some (IntVal i)"
  by (auto simp: int_attr_def getattr_def and_then_def split: option.splits hdr_val.splits)

lemma double_attr_Inr: "double_attr hdr k = Inr d \<longleftrightarrow> map_of hdr k = Some (DoubleVal d)"
  by (auto simp: double_attr_def getattr_def and_then_def split: option.splits hdr_val.splits)

lemma get_dtype_Inr:
  "get_dtype b = Inr dt \<longleftrightarrow>
     (b = 8 \<or> b = 16 \<or> b = 32) \<and> dt = (if b = 32 then Float32 else UInt b)"
  by (auto simp: get_dtype_def)

lemma and_then_Inr: "and_then r f = Inr y \<longleftrightarrow> (\<exists>x. r = Inr x \<and> f x = Inr y)"
  by (cases r) (auto simp: and_then_def)

lemma init_geometry_Inr:
  assumes "init_geometry filfn ro content hdr hsize = Inr (fb, ws)"
  shows "\<exists>c b dt sp. map_of hdr ''nchans'' = Some (IntVal c)
     \<and> map_of hdr ''nbits'' = Some (IntVal b)
     \<and> (\<exists>d. map_of hdr ''fch1'' = Some (DoubleVal d))
     \<and> (\<exists>d. map_of hdr ''foff'' = Some (DoubleVal d))
     \<and> c * b div 8 \<noteq> 0 \<and> get_dtype b = Inr dt
     \<and> memmap content dt hsize ((int (length content) - int hsize) div (c * b div 8), c) = Inr sp
     \<and> fb = \<lparr>filename = filfn, read_only = ro, header = hdr, header_size = hsize,
             data_size = int (length content) - int hsize, bytes_per_spectrum = c * b div 8,
             nspec = (int (length content) - int hsize) div (c * b div 8),
             spectra_dtype = dt, spectra = sp\<rparr>
     \<and> ws = (if (int (length content) - int hsize) mod (c * b div 8) \<noteq> 0
                 then [''Not an integer number of spectra in file.''] else [])"
  using assms
  unfolding init_geometry_def Let_def
  by (auto simp: and_then_Inr int_attr_Inr double_attr_Inr split: if_splits)

lemma init_Inr:
  assumes "FilterbankFile_init rd fs path ro = Some (Inr (fb, ws))"
  shows "\<exists>content hdr hsize. fs path = Some content
           \<and> read_header rd fs path = Some (Inr (hdr, hsize))
           \<and> init_geometry path ro content hdr hsize = Inr (fb, ws)"
  using assms
  by (auto simp: FilterbankFile_init_def split: option.splits sum.splits)

lemma memmap_Inr:
  "memmap content dt off (n, c) = Inr sp \<longleftrightarrow>
     0 \<le> n \<and> 0 \<le> c \<and> int off + n * c * int (itemsize dt) \<le> int (length content)
     \<and> sp = map (\<lambda>r. map (\<lambda>k. sample_at content off (itemsize dt) (r * nat c + k)) [0..<nat c])
                [0..<nat n]"
  by (auto simp: memmap_def)

lemma bps_pos:
  assumes "b = 8 \<or> b = 16 \<or> b = 32" "0 \<le> c" "c * b div 8 \<noteq> 0"
  shows "0 < c * b div (8::int)"
    and "c * b div 8 = c * int (itemsize (if b = 32 then Float32 else UInt b))"
  using assms by auto

lemma floor_bounds:
  fixes d b :: int
  assumes "0 < b"
  shows "d div b * b \<le> d" and "d < (d div b + 1) * b"
proof -
  have split: "d = d div b * b + d mod b" by simp
  have rem: "0 \<le> d mod b" "d mod b < b" using assms by simp_all
  from split rem show "d div b * b \<le> d" by linarith
  have "(d div b + 1) * b = d div b * b + b" by (simp add: algebra_simps)
  with split rem show "d < (d div b + 1) * b" by linarith
qed

lemmas init_defs =
  FilterbankFile_init_def init_geometry_def and_then_def getattr_def int_attr_def
  double_attr_def get_dtype_def memmap_def sample_at_def read_header_def
  read_header_loop.simps setitem_def

lemma scenario_open:
  "FilterbankFile_init (read_hdr_val header_params) [''obs.fil'' \<mapsto> scenario_file]
       ''obs.fil'' True
     = Some (Inr (scenario_handle, [''Not an integer number of spectra in file.'']))"
  by (simp add: init_defs codec_defs scenario_file_def scenario_fields_def
        scenario_handle_def upt_rec)

text \<open>
  C5. For every file that was opened, the geometry kept in the handle satisfies
  \<open>nspec * bytes_per_spectrum \<le> data_size < (nspec + 1) * bytes_per_spectrum\<close>, where
  \<open>data_size\<close> is the size of the file minus the size of the header that \<^verbatim>\<open>read_header\<close>
  returned, and \<open>bytes_per_spectrum\<close> is the number of channels times the bits per sample,
  divided by 8.
\<close>

theorem geometry_bounds:
  assumes "FilterbankFile_init rd fs path ro = Some (Inr (fb, ws))"
  shows "nspec fb * bytes_per_spectrum fb \<le> data_size fb
       \<and> data_size fb < (nspec fb + 1) * bytes_per_spectrum fb
       \<and> (\<exists>content c b. fs path = Some content
             \<and> read_header rd fs path = Some (Inr (header fb, header_size fb))
             \<and> data_size fb = int (length content) - int (header_size fb)
             \<and> map_of (header fb) ''nchans'' = Some (IntVal c)
             \<and> map_of (header fb) ''nbits'' = Some (IntVal b)
             \<and> bytes_per_spectrum fb = c * b div 8)"
proof -
  from init_Inr [OF assms] obtain content hdr hsize where
    f: "fs path = Some content" and r: "read_header rd fs path = Some (Inr (hdr, hsize))"
    and g: "init_geometry path ro content hdr hsize = Inr (fb, ws)" by blast
  from init_geometry_Inr [OF g] obtain c b dt sp where
    c: "map_of hdr ''nchans'' = Some (IntVal c)" and b: "map_of hdr ''nbits'' = Some (IntVal b)"
    and nz: "c * b div 8 \<noteq> 0" and dt: "get_dtype b = Inr dt"
    and mm: "memmap content dt hsize
               ((int (length content) - int hsize) div (c * b div 8), c) = Inr sp"
    and fb: "fb = \<lparr>filename = path, read_only = ro, header = hdr, header_size = hsize,
             data_size = int (length content) - int hsize, bytes_per_spectrum = c * b div 8,
             nspec = (int (length content) - int hsize) div (c * b div 8),
             spectra_dtype = dt, spectra = sp\<rparr>" by blast
  from dt have b3: "b = 8 \<or> b = 16 \<or> b = 32" by (simp add: get_dtype_Inr)
  from mm have c0: "0 \<le> c" by (simp add: memmap_Inr)
  have pos: "0 < c * b div 8" using bps_pos(1) [OF b3 c0 nz] .
  have "nspec fb * bytes_per_spectrum fb \<le> data_size fb"
    and "data_size fb < (nspec fb + 1) * bytes_per_spectrum fb"
    using floor_bounds [OF pos, of "int (length content) - int hsize"] by (simp_all add: fb)
  moreover have "\<exists>content c b. fs path = Some content
             \<and> read_header rd fs path = Some (Inr (header fb, header_size fb))
             \<and> data_size fb = int (length content) - int (header_size fb)
             \<and> map_of (header fb) ''nchans'' = Some (IntVal c)
             \<and> map_of (header fb) ''nbits'' = Some (IntVal b)
             \<and> bytes_per_spectrum fb = c * b div 8"
    using f r c b by (simp add: fb)
  ultimately show ?thesis by blast
qed

theorem geometry_bounds_witness:
  "FilterbankFile_init (read_hdr_val header_params) [''obs.fil'' \<mapsto> scenario_file]
       ''obs.fil'' True
     = Some (Inr (scenario_handle, [''Not an integer number of spectra in file.'']))
   \<and> nspec scenario_handle = 2 \<and> bytes_per_spectrum scenario_handle = 4
   \<and> data_size scenario_handle = 10
   \<and> nspec scenario_handle * bytes_per_spectrum scenario_handle \<le> data_size scenario_handle
   \<and> data_size scenario_handle < (nspec scenario_handle + 1) * bytes_per_spectrum scenario_handle"
  using geometry_bounds [OF scenario_open] scenario_open
  by (simp add: scenario_handle_def)

end
